theory Spec2Isabelle
  imports Complex_Main "HOL-Library.Multiset"
begin

section \<open>Python values used by the recommendation pipeline\<close>

text \<open>
  The services under \<^verbatim>\<open>backend/app/services\<close> are embedded as HOL functions.
  Python floats are represented by exact rationals: every comparison in the code is
  against a decimal literal, and the only arithmetic is halving, one division and
  rounding to two decimals. NaN and the infinities have no counterpart here.
  A Python \<^verbatim>\<open>str\<close> is a \<^typ>\<open>string\<close> whose characters are read as code points
  below 256.

  A raised exception is a value of \<open>exn\<close>; a computation that may raise has type
  \<open>exn + 'a\<close>. Where the code puts \<^verbatim>\<open>str(e)\<close> into a dictionary, the model keeps
  the exception itself.
\<close>

datatype exn =
    KeyError string
  | IndexError
  | TypeError
  | NameError string
  | HTTPError nat
  | Raised string

definition and_then :: "exn + 'a \<Rightarrow> ('a \<Rightarrow> exn + 'b) \<Rightarrow> exn + 'b" where
  "and_then m f = (case m of Inl e \<Rightarrow> Inl e | Inr x \<Rightarrow> f x)"

text \<open>A result dictionary: \<^verbatim>\<open>{"success": True, ...}\<close> or
  \<^verbatim>\<open>{"success": False, "error": prefix + str(e)}\<close>.\<close>

datatype 'a outcome =
    Success (payload: 'a)
  | Failure (error_prefix: string) (cause: exn)

text \<open>\<^verbatim>\<open>d.get(k, default)\<close> and \<^verbatim>\<open>d[k]\<close> on a dictionary literal, kept as the list
  of its items. No literal of the code repeats a key, so the first item found is the
  only one.\<close>

definition dict_get :: "('k \<times> 'v) list \<Rightarrow> 'k \<Rightarrow> 'v \<Rightarrow> 'v" where
  "dict_get d k dflt = (case map_of d k of Some v \<Rightarrow> v | None \<Rightarrow> dflt)"

definition dict_index :: "(string \<times> 'v) list \<Rightarrow> string \<Rightarrow> exn + 'v" where
  "dict_index d k = (case map_of d k of Some v \<Rightarrow> Inr v | None \<Rightarrow> Inl (KeyError k))"

subsection \<open>\<^verbatim>\<open>str.lower\<close> and \<^verbatim>\<open>str.strip\<close>\<close>

definition py_isspace :: "char \<Rightarrow> bool" where
  "py_isspace c = (let n = (of_char c :: nat) in
     (9 \<le> n \<and> n \<le> 13) \<or> (28 \<le> n \<and> n \<le> 32) \<or> n = 133 \<or> n = 160)"

definition lower_char :: "char \<Rightarrow> char" where
  "lower_char c = (let n = (of_char c :: nat) in
     if (65 \<le> n \<and> n \<le> 90) \<or> (192 \<le> n \<and> n \<le> 222 \<and> n \<noteq> 215)
     then char_of (n + 32) else c)"

definition py_lower :: "string \<Rightarrow> string" where
  "py_lower s = map lower_char s"

definition py_strip :: "string \<Rightarrow> string" where
  "py_strip s = rev (dropWhile py_isspace (rev (dropWhile py_isspace s)))"

subsection \<open>\<^verbatim>\<open>round(x, 2)\<close> and the format \<^verbatim>\<open>{x:.1f}\<close>\<close>

text \<open>Both round to the nearest decimal, a tie going to the even digit.\<close>

definition round_half_even :: "rat \<Rightarrow> int" where
  "round_half_even x = (let f = \<lfloor>x\<rfloor>; d = x - of_int f in
     if d < 1 / 2 then f else if 1 / 2 < d then f + 1 else if even f then f else f + 1)"

definition py_round2 :: "rat \<Rightarrow> rat" where
  "py_round2 x = of_int (round_half_even (x * 100)) / 100"

fun py_str_nat :: "nat \<Rightarrow> string" where
  "py_str_nat n =
     (if n < 10 then [char_of (48 + n)]
      else py_str_nat (n div 10) @ [char_of (48 + n mod 10)])"

declare py_str_nat.simps [simp del]

definition format_1f :: "rat \<Rightarrow> string" where
  "format_1f x = (let n = nat (round_half_even (\<bar>x\<bar> * 10)) in
      (if x < 0 then ''-'' else []) @ py_str_nat (n div 10) @ ''.'' @ py_str_nat (n mod 10))"

subsection \<open>Decoded JSON\<close>

text \<open>What \<^verbatim>\<open>r.json()\<close> returns; a number, integer or float, is a rational.\<close>

datatype json =
    JNull
  | JBool bool
  | JNum rat
  | JStr string
  | JArr "json list"
  | JObj "(string \<times> json) list"

text \<open>\<^verbatim>\<open>x["k"]\<close>: only a dictionary can be indexed by a string; of a repeated key the
  decoder keeps the last value.\<close>

fun getitem :: "json \<Rightarrow> string \<Rightarrow> exn + json" where
  "getitem (JObj kvs) k = (case map_of (rev kvs) k of Some v \<Rightarrow> Inr v | None \<Rightarrow> Inl (KeyError k))"
| "getitem _ k = Inl TypeError"

text \<open>\<^verbatim>\<open>x[-1]\<close>: the last element of a list, the last character of a string.\<close>

fun last_item :: "json \<Rightarrow> exn + json" where
  "last_item (JArr xs) = (if xs = [] then Inl IndexError else Inr (last xs))"
| "last_item (JStr s) = (if s = [] then Inl IndexError else Inr (JStr [last s]))"
| "last_item (JObj kvs) = Inl (KeyError ''-1'')"
| "last_item _ = Inl TypeError"

text \<open>\<^verbatim>\<open>sum(x)\<close> starts from 0 and adds the items in order; a boolean counts as 0 or 1,
  anything else that is not a number raises.\<close>

fun add_item :: "rat \<Rightarrow> json \<Rightarrow> exn + rat" where
  "add_item acc (JNum x) = Inr (acc + x)"
| "add_item acc (JBool b) = Inr (acc + (if b then 1 else 0))"
| "add_item acc _ = Inl TypeError"

fun sum_items :: "rat \<Rightarrow> json list \<Rightarrow> exn + rat" where
  "sum_items acc [] = Inr acc"
| "sum_items acc (x # xs) =
     (case add_item acc x of Inl e \<Rightarrow> Inl e | Inr acc' \<Rightarrow> sum_items acc' xs)"

fun py_sum :: "json \<Rightarrow> exn + rat" where
  "py_sum (JArr xs) = sum_items 0 xs"
| "py_sum (JStr s) = (if s = [] then Inr 0 else Inl TypeError)"
| "py_sum (JObj kvs) = (if kvs = [] then Inr 0 else Inl TypeError)"
| "py_sum _ = Inl TypeError"

section \<open>weather\_service.py\<close>

subsection \<open>get\_openmeteo\_weather\<close>

text \<open>
  The provider is a parameter: \<open>requests_get lat lon\<close> is what
  \<^verbatim>\<open>requests.get(OPENMETEO_URL, params=..., timeout=5)\<close> does, either raising (timeout,
  connection error) or returning a response with a status code and a body that
  \<^verbatim>\<open>r.json()\<close> decodes or rejects. \<open>now\<close> is \<^verbatim>\<open>datetime.utcnow().isoformat()\<close>.
\<close>

record http_response =
  status_code :: nat
  json_body :: "exn + json"

definition raise_for_status :: "http_response \<Rightarrow> exn + unit" where
  "raise_for_status r =
     (if 400 \<le> status_code r \<and> status_code r < 600 then Inl (HTTPError (status_code r))
      else Inr ())"

record weather_snapshot =
  temperature :: json
  humidity :: json
  rain_24h :: rat
  timestamp :: string
  error :: "exn option"

text \<open>The body of the \<^verbatim>\<open>try\<close> block, lines 13 to 32.\<close>

definition hourly_field :: "json \<Rightarrow> string \<Rightarrow> exn + json" where
  "hourly_field data k = and_then (getitem data ''hourly'') (\<lambda>h. getitem h k)"

definition fetch_hourly :: "(rat \<Rightarrow> rat \<Rightarrow> exn + http_response) \<Rightarrow> rat \<Rightarrow> rat \<Rightarrow> exn + (json \<times> json \<times> rat)" where
  "fetch_hourly requests_get lat lon =
     and_then (requests_get lat lon) (\<lambda>r.
     and_then (raise_for_status r) (\<lambda>_.
     and_then (json_body r) (\<lambda>data.
     and_then (hourly_field data ''time'') (\<lambda>hours.
     and_then (hourly_field data ''temperature_2m'') (\<lambda>temps.
     and_then (hourly_field data ''relative_humidity_2m'') (\<lambda>hums.
     and_then (hourly_field data ''precipitation'') (\<lambda>prec.
     and_then (last_item temps) (\<lambda>t.
     and_then (last_item hums) (\<lambda>h.
     and_then (py_sum prec) (\<lambda>rain.
     Inr (t, h, rain)))))))))))"

definition get_openmeteo_weather :: "(rat \<Rightarrow> rat \<Rightarrow> exn + http_response) \<Rightarrow> string \<Rightarrow> rat \<Rightarrow> rat \<Rightarrow> weather_snapshot" where
  "get_openmeteo_weather requests_get now lat lon =
     (case fetch_hourly requests_get lat lon of
        Inr (t, h, rain) \<Rightarrow>
          \<lparr>temperature = t, humidity = h, rain_24h = rain, timestamp = now, error = None\<rparr>
      | Inl e \<Rightarrow>
          \<lparr>temperature = JNum 25.0, humidity = JNum 60.0, rain_24h = 0.0, timestamp = now,
           error = Some e\<rparr>)"

subsection \<open>map\_location\_to\_coords\<close>

definition location_map :: "((string \<times> string) \<times> (rat \<times> rat)) list" where
  "location_map =
  [((''chhattisgarh'', ''durg''), (21.1939, 81.2740)),
   ((''chhattisgarh'', ''raipur''), (21.2514, 81.6296)),
   ((''chhattisgarh'', ''bilaspur''), (22.0796, 82.1590)),
   ((''chhattisgarh'', ''rajnandgaon''), (22.5596, 81.3089)),
   ((''maharashtra'', ''pune''), (18.5204, 73.8567)),
   ((''maharashtra'', ''mumbai''), (19.0760, 72.8777)),
   ((''maharashtra'', ''nagpur''), (21.1458, 79.0882)),
   ((''maharashtra'', ''aurangabad''), (19.8762, 75.3433)),
   ((''maharashtra'', ''nashik''), (19.9975, 73.7898)),
   ((''maharashtra'', ''kolhapur''), (16.7050, 74.2433)),
   ((''delhi'', ''delhi''), (28.7041, 77.1025)),
   ((''karnataka'', ''bangalore''), (12.9716, 77.5946)),
   ((''karnataka'', ''bengaluru''), (12.9716, 77.5946)),
   ((''karnataka'', ''belagavi''), (15.8497, 74.4977)),
   ((''karnataka'', ''belgaum''), (15.8497, 74.4977)),
   ((''karnataka'', ''ballari''), (15.1400, 76.6200)),
   ((''karnataka'', ''bellary''), (15.1400, 76.6200)),
   ((''karnataka'', ''dharwad''), (15.4589, 75.1342)),
   ((''karnataka'', ''dharwar''), (15.4589, 75.1342)),
   ((''karnataka'', ''hubballi''), (15.3647, 75.1240)),
   ((''karnataka'', ''hubli''), (15.3647, 75.1240)),
   ((''karnataka'', ''gulbarga''), (17.3265, 76.4304)),
   ((''karnataka'', ''kalaburagi''), (17.3265, 76.4304)),
   ((''karnataka'', ''tumkur''), (13.2173, 77.1145)),
   ((''karnataka'', ''tumkuru''), (13.2173, 77.1145)),
   ((''karnataka'', ''mysore''), (12.2958, 76.6394)),
   ((''karnataka'', ''mysuru''), (12.2958, 76.6394)),
   ((''karnataka'', ''mandya''), (12.5353, 76.8970)),
   ((''karnataka'', ''hassan''), (13.3352, 75.9103)),
   ((''karnataka'', ''chikmagalur''), (13.3181, 75.7708)),
   ((''karnataka'', ''kodagu''), (12.3381, 75.7273)),
   ((''karnataka'', ''coorg''), (12.3381, 75.7273)),
   ((''karnataka'', ''udupi''), (13.3408, 74.7421)),
   ((''karnataka'', ''dakshina kannada''), (12.6689, 75.3692)),
   ((''karnataka'', ''mangalore''), (12.8658, 74.8440)),
   ((''karnataka'', ''mangaluru''), (12.8658, 74.8440)),
   ((''karnataka'', ''uttara kannada''), (14.4505, 74.6660)),
   ((''karnataka'', ''chitradurga''), (14.2267, 75.6760)),
   ((''karnataka'', ''chikballapur''), (13.4359, 77.7297)),
   ((''karnataka'', ''kolar''), (13.1359, 78.1304)),
   ((''karnataka'', ''ramanagara''), (12.7667, 77.2833)),
   ((''karnataka'', ''davangere''), (14.4667, 75.9167)),
   ((''karnataka'', ''davanagere''), (14.4667, 75.9167)),
   ((''karnataka'', ''shimoga''), (13.9299, 75.5681)),
   ((''karnataka'', ''shivamogga''), (13.9299, 75.5681)),
   ((''karnataka'', ''vikarabad''), (16.9891, 77.1331)),
   ((''karnataka'', ''yadgir''), (16.7669, 77.1391)),
   ((''karnataka'', ''bagalkot''), (16.1703, 75.6667)),
   ((''karnataka'', ''bijapur''), (16.8302, 75.7053)),
   ((''karnataka'', ''vijayapura''), (16.8302, 75.7053)),
   ((''tamil nadu'', ''chennai''), (13.0827, 80.2707)),
   ((''tamil nadu'', ''coimbatore''), (11.0168, 76.9558)),
   ((''tamil nadu'', ''madurai''), (9.9252, 78.1198)),
   ((''tamil nadu'', ''salem''), (11.6643, 78.1460)),
   ((''tamil nadu'', ''tiruppur''), (11.3889, 77.3411)),
   ((''tamil nadu'', ''erode''), (11.3919, 77.7172)),
   ((''tamil nadu'', ''trichy''), (10.7905, 78.7047)),
   ((''tamil nadu'', ''thanjavur''), (10.7870, 79.1378)),
   ((''telangana'', ''hyderabad''), (17.3850, 78.4867)),
   ((''telangana'', ''warangal''), (17.9689, 79.5941)),
   ((''telangana'', ''nizamabad''), (19.2705, 78.0945)),
   ((''andhra pradesh'', ''visakhapatnam''), (17.6868, 83.2185)),
   ((''andhra pradesh'', ''vijayawada''), (16.5062, 80.6480)),
   ((''andhra pradesh'', ''tirupati''), (13.1939, 79.8941)),
   ((''uttar pradesh'', ''lucknow''), (26.8467, 80.9462)),
   ((''uttar pradesh'', ''kanpur''), (26.4499, 80.3319)),
   ((''uttar pradesh'', ''varanasi''), (25.3176, 82.9739)),
   ((''uttar pradesh'', ''agra''), (27.1767, 78.0081)),
   ((''west bengal'', ''kolkata''), (22.5726, 88.3639)),
   ((''west bengal'', ''darjeeling''), (27.0410, 88.2663)),
   ((''west bengal'', ''siliguri''), (26.7271, 88.3953)),
   ((''gujarat'', ''surat''), (21.1702, 72.8311)),
   ((''gujarat'', ''ahmedabad''), (23.0225, 72.5714)),
   ((''gujarat'', ''vadodara''), (22.3072, 73.1812)),
   ((''gujarat'', ''rajkot''), (22.3039, 70.8022)),
   ((''rajasthan'', ''jaipur''), (26.9124, 75.7873)),
   ((''rajasthan'', ''jodhpur''), (26.2389, 73.0243)),
   ((''rajasthan'', ''ajmer''), (26.4499, 74.6399)),
   ((''rajasthan'', ''udaipur''), (24.5854, 73.7125)),
   ((''madhya pradesh'', ''bhopal''), (23.2599, 77.4126)),
   ((''madhya pradesh'', ''indore''), (22.7196, 75.8577)),
   ((''madhya pradesh'', ''gwalior''), (26.2389, 78.1770)),
   ((''madhya pradesh'', ''jabalpur''), (23.1815, 79.9864)),
   ((''bihar'', ''patna''), (25.5941, 85.1376)),
   ((''bihar'', ''gaya''), (24.7955, 84.9994)),
   ((''bihar'', ''bhagalpur''), (25.2820, 86.4728)),
   ((''haryana'', ''gurugram''), (28.4595, 77.0266)),
   ((''haryana'', ''faridabad''), (28.4089, 77.3178)),
   ((''haryana'', ''hisar''), (29.1461, 75.7337)),
   ((''punjab'', ''ludhiana''), (30.9009, 75.8573)),
   ((''punjab'', ''amritsar''), (31.6340, 74.8723)),
   ((''punjab'', ''jalandhar''), (31.7260, 75.5762)),
   ((''punjab'', ''chandigarh''), (30.7333, 76.7794)),
   ((''odisha'', ''bhubaneswar''), (20.2961, 85.8245)),
   ((''odisha'', ''cuttack''), (20.4625, 85.8830)),
   ((''odisha'', ''rourkela''), (22.2271, 84.8537)),
   ((''assam'', ''guwahati''), (26.1863, 91.7668)),
   ((''assam'', ''dibrugarh''), (27.4728, 94.9119)),
   ((''uttaranchal'', ''dehradun''), (30.3165, 78.0322)),
   ((''uttarakhand'', ''dehradun''), (30.3165, 78.0322)),
   ((''uttaranchal'', ''nainital''), (29.3804, 79.4608)),
   ((''uttarakhand'', ''nainital''), (29.3804, 79.4608)),
   ((''himachal pradesh'', ''shimla''), (31.1048, 77.1734)),
   ((''himachal pradesh'', ''manali''), (32.2541, 77.1882)),
   ((''himachal pradesh'', ''mandi''), (31.5885, 76.9386)),
   ((''meghalaya'', ''shillong''), (25.5687, 91.8832)),
   ((''tripura'', ''agartala''), (23.8317, 91.2868)),
   ((''mizoram'', ''aizawl''), (23.7148, 92.7299)),
   ((''nagaland'', ''kohima''), (25.6782, 94.1115)),
   ((''arunachal pradesh'', ''itanagar''), (27.1767, 93.6926)),
   ((''sikkim'', ''gangtok''), (27.7022, 88.5630)),
   ((''kerala'', ''thiruvananthapuram''), (8.5241, 76.9366)),
   ((''kerala'', ''kochi''), (9.9312, 76.2673)),
   ((''kerala'', ''kozhikode''), (11.2588, 75.7804)),
   ((''goa'', ''panaji''), (15.2993, 74.1240)),
   ((''goa'', ''margao''), (15.2833, 73.9500)),
   ((''puducherry'', ''pondicherry''), (11.9416, 79.8084)),
   ((''jammu and kashmir'', ''srinagar''), (34.0837, 74.8070)),
   ((''jammu and kashmir'', ''jammu''), (32.7266, 75.8472)),
   ((''ladakh'', ''leh''), (34.1526, 77.5794)),
   ((''ladakh'', ''kargil''), (34.5543, 76.1119)),
   ((''andaman and nicobar islands'', ''port blair''), (11.7401, 92.7673))]"

definition map_location_to_coords :: "string \<Rightarrow> string \<Rightarrow> rat \<times> rat" where
  "map_location_to_coords state_name district_name =
     (let key = (py_lower (py_strip state_name), py_lower (py_strip district_name)) in
      case map_of location_map key of
        Some coords \<Rightarrow> coords
      | None \<Rightarrow> (20.0, 78.0))"


section \<open>The pre-trained classifiers\<close>

text \<open>
  The two pipelines loaded with \<^verbatim>\<open>joblib.load\<close> are parameters. A classifier offers
  \<^verbatim>\<open>predict_proba\<close>, \<^verbatim>\<open>predict\<close> and \<^verbatim>\<open>classes_\<close> (the field \<open>classes\<close>); either call
  may raise. The arrays
  they return have zero, one or two dimensions.
\<close>

datatype ndarray = Scalar rat | Array1 "rat list" | Array2 "rat list list"

fun ndim :: "ndarray \<Rightarrow> nat" where
  "ndim (Scalar x) = 0"
| "ndim (Array1 xs) = 1"
| "ndim (Array2 rows) = 2"

text \<open>\<^verbatim>\<open>a[0]\<close> on an array.\<close>

fun index0 :: "ndarray \<Rightarrow> exn + ndarray" where
  "index0 (Array2 rows) = (case rows of [] \<Rightarrow> Inl IndexError | r # _ \<Rightarrow> Inr (Array1 r))"
| "index0 (Array1 xs) = (case xs of [] \<Rightarrow> Inl IndexError | x # _ \<Rightarrow> Inr (Scalar x))"
| "index0 (Scalar x) = Inl IndexError"

record ('x, 'l) classifier =
  predict_proba :: "'x \<Rightarrow> exn + ndarray"
  predict :: "'x \<Rightarrow> exn + 'l list"
  classes :: "'l list"

section \<open>irrigation\_service.py\<close>

definition SOIL_FEEL_MAP :: "(string \<times> rat) list" where
  "SOIL_FEEL_MAP =
     [(''dry and crumbly'', 0.2),
      (''slightly damp'', 0.5),
      (''wet and muddy'', 0.8)]"

definition moisture_to_water_mm :: "rat \<Rightarrow> rat" where
  "moisture_to_water_mm moisture_mean =
     (if moisture_mean < 0.3 then 20.0
      else if moisture_mean < 0.5 then 12.0
      else if moisture_mean < 0.7 then 5.0
      else 0.0)"

text \<open>Line 49: \<^verbatim>\<open>SOIL_FEEL_MAP.get(soil_feel.lower(), 0.45)\<close>.\<close>

definition soil_feel_moisture :: "string \<Rightarrow> rat" where
  "soil_feel_moisture feel = dict_get SOIL_FEEL_MAP (py_lower feel) 0.45"

text \<open>Lines 59 to 62 of \<^verbatim>\<open>recommend_irrigation\<close>: the two calls of the classifier on the
  row of five copies of the moisture, and what is read from their results.\<close>

fun first_label :: "'l list \<Rightarrow> exn + 'l" where
  "first_label [] = Inl IndexError"
| "first_label (x # xs) = Inr x"

text \<open>\<^verbatim>\<open>float(proba[1]) if len(proba) > 1 else 0.5\<close>. A two-dimensional \<open>proba\<close> cannot
  reach this line from the arrays above; its \<open>proba[1]\<close> would be a row.\<close>

fun p_irrigate_of :: "ndarray \<Rightarrow> exn + rat" where
  "p_irrigate_of (Array1 xs) = (if length xs > 1 then Inr (xs ! 1) else Inr 0.5)"
| "p_irrigate_of (Scalar x) = Inl TypeError"
| "p_irrigate_of (Array2 rows) = (if length rows > 1 then Inl TypeError else Inr 0.5)"

definition classify :: "(rat list, int) classifier \<Rightarrow> rat \<Rightarrow> exn + (int \<times> rat)" where
  "classify irrigation_model m =
     (let features_df = [m, m, m, m, m] in
      and_then (predict_proba irrigation_model features_df) (\<lambda>pred_proba.
      and_then (if ndim pred_proba > 1 then index0 pred_proba else Inr pred_proba) (\<lambda>proba.
      and_then (predict irrigation_model features_df) (\<lambda>preds.
      and_then (first_label preds) (\<lambda>pred.
      and_then (p_irrigate_of proba) (\<lambda>p_irrigate.
      Inr (pred, p_irrigate)))))))"

text \<open>Lines 70 to 76: the depth and the reason after the forecast is taken into account.\<close>

definition rain_adjust :: "rat \<Rightarrow> rat \<Rightarrow> rat \<times> string" where
  "rain_adjust base_mm forecast_rain_mm_24h =
     (if forecast_rain_mm_24h > 10 then
        (0.0, ''Heavy rain expected (>10mm), skipping irrigation.'')
      else if forecast_rain_mm_24h > 5 then
        (base_mm * 0.5,
         ''Moderate rain expected ('' @ format_1f forecast_rain_mm_24h
           @ ''mm), reducing irrigation by 50%.'')
      else (base_mm, ''No significant rain expected.''))"

record irrigation_recommendation =
  irrigate :: bool
  model_probability :: rat
  moisture_level :: rat
  water_mm :: rat
  duration_hours :: rat
  reason_weather :: string
  application_rate_mm_per_h :: rat
  soil_feel :: string

definition recommend_irrigation_body ::
  "(rat list, int) classifier \<Rightarrow> string \<Rightarrow> rat \<Rightarrow> rat \<Rightarrow> exn + irrigation_recommendation" where
  "recommend_irrigation_body irrigation_model feel rate forecast_rain_mm_24h =
     (let m = soil_feel_moisture feel in
      and_then (classify irrigation_model m) (\<lambda>(pred, p_irrigate).
        let (base_mm, reason) = rain_adjust (moisture_to_water_mm m) forecast_rain_mm_24h;
            duration_h = (if rate > 0 then base_mm / rate else 0.0)
        in Inr \<lparr>irrigate = (pred \<noteq> 0 \<and> base_mm > 0),
                model_probability = p_irrigate,
                moisture_level = m,
                water_mm = py_round2 base_mm,
                duration_hours = py_round2 duration_h,
                reason_weather = reason,
                application_rate_mm_per_h = rate,
                soil_feel = feel\<rparr>))"

definition recommend_irrigation ::
  "(rat list, int) classifier \<Rightarrow> string \<Rightarrow> rat \<Rightarrow> rat \<Rightarrow> irrigation_recommendation outcome" where
  "recommend_irrigation irrigation_model feel rate forecast_rain_mm_24h =
     (case recommend_irrigation_body irrigation_model feel rate forecast_rain_mm_24h of
        Inr r \<Rightarrow> Success r
      | Inl e \<Rightarrow> Failure ''Irrigation recommendation failed: '' e)"

subsection \<open>recommend\_irrigation\_with\_weather\<close>

text \<open>The keys every response carries once the weather has been fetched.\<close>

record located =
  weather :: weather_snapshot
  state :: string
  district :: string

text \<open>The inner result with the keys added at lines 121 to 123, and the two keys that
  \<^verbatim>\<open>log_irrigation\<close> writes into the dictionary it is given.\<close>

record irrigation_response = located +
  result :: "irrigation_recommendation outcome"
  logged_ids :: "(string \<times> string) option"

text \<open>\<^verbatim>\<open>AppwriteService.log_irrigation\<close> of \<^verbatim>\<open>core/appwrite.py\<close>: the document store
  is the parameter \<open>create_document\<close>, whose failure is printed and dropped.\<close>

definition log_irrigation ::
  "(irrigation_response \<Rightarrow> exn + unit) \<Rightarrow> string \<Rightarrow> string \<Rightarrow> irrigation_response \<Rightarrow> irrigation_response" where
  "log_irrigation create_document user_id farm_id log_data =
     (let log_data' = log_data\<lparr>logged_ids := Some (user_id, farm_id)\<rparr> in
      case create_document log_data' of
        Inr _ \<Rightarrow> log_data'
      | Inl e \<Rightarrow> log_data')"

text \<open>The names bound at the top level of \<^verbatim>\<open>irrigation_service.py\<close>: its imports,
  its constants and its functions. A name a function reads without binding it is looked
  up here, and raises when it is absent.\<close>

definition irrigation_service_globals :: "string list" where
  "irrigation_service_globals =
     [''joblib'', ''np'', ''os'', ''Dict'', ''pd'',
      ''get_openmeteo_weather'', ''map_location_to_coords'',
      ''BASE_DIR'', ''IRRIGATION_MODEL_PATH'', ''irrigation_model'',
      ''SOIL_FEEL_MAP'', ''moisture_to_water_mm'',
      ''recommend_irrigation'', ''recommend_irrigation_with_weather'']"

definition load_global :: "string list \<Rightarrow> string \<Rightarrow> exn + unit" where
  "load_global names n = (if n \<in> set names then Inr () else Inl (NameError n))"

text \<open>Line 112, \<^verbatim>\<open>rain_24h = weather["rain_24h"]\<close>: the forecast handed to
  \<open>recommend_irrigation\<close>.\<close>

definition irrigation_rain_24h :: "weather_snapshot \<Rightarrow> rat" where
  "irrigation_rain_24h w = rain_24h w"

definition recommend_irrigation_with_weather_body ::
  "(rat list, int) classifier \<Rightarrow> (rat \<Rightarrow> rat \<Rightarrow> exn + http_response) \<Rightarrow> string
     \<Rightarrow> (irrigation_response \<Rightarrow> exn + unit)
     \<Rightarrow> string \<Rightarrow> rat \<Rightarrow> string \<Rightarrow> string \<Rightarrow> exn + irrigation_response" where
  "recommend_irrigation_with_weather_body irrigation_model requests_get now create_document
       feel rate state_name district_name =
     (let (lat, lon) = map_location_to_coords state_name district_name;
          w = get_openmeteo_weather requests_get now lat lon;
          rain = irrigation_rain_24h w;
          res = recommend_irrigation irrigation_model feel rate rain;
          response = \<lparr>weather = w, state = state_name, district = district_name,
                      result = res, logged_ids = None\<rparr>
      in if is_Success res then
           and_then (load_global irrigation_service_globals ''appwrite_service'') (\<lambda>_.
           Inr (log_irrigation create_document ''temp_user'' ''temp_farm'' response))
         else Inr response)"

definition recommend_irrigation_with_weather ::
  "(rat list, int) classifier \<Rightarrow> (rat \<Rightarrow> rat \<Rightarrow> exn + http_response) \<Rightarrow> string
     \<Rightarrow> (irrigation_response \<Rightarrow> exn + unit)
     \<Rightarrow> string \<Rightarrow> rat \<Rightarrow> string \<Rightarrow> string \<Rightarrow> irrigation_response outcome" where
  "recommend_irrigation_with_weather irrigation_model requests_get now create_document
       feel rate state_name district_name =
     (case recommend_irrigation_with_weather_body irrigation_model requests_get now
             create_document feel rate state_name district_name of
        Inr response \<Rightarrow> Success response
      | Inl e \<Rightarrow> Failure ''Weather-based irrigation recommendation failed: '' e)"

text \<open>The value of the key \<^verbatim>\<open>"success"\<close> in the dictionary the function returns.\<close>

definition success_flag :: "irrigation_response outcome \<Rightarrow> bool" where
  "success_flag out =
     (case out of Success response \<Rightarrow> is_Success (result response) | Failure p e \<Rightarrow> False)"


section \<open>crop\_service.py\<close>

definition SOIL_QUALITY_MAP :: "(string \<times> (string \<times> int) list) list" where
  "SOIL_QUALITY_MAP =
     [(''Poor'', [(''N'', 20), (''P'', 10), (''K'', 10)]),
      (''Medium'', [(''N'', 50), (''P'', 25), (''K'', 25)]),
      (''Rich'', [(''N'', 90), (''P'', 40), (''K'', 40)])]"

definition SOIL_TYPE_MAP :: "(string \<times> rat) list" where
  "SOIL_TYPE_MAP =
     [(''Sandy'', 6.5),
      (''Loam'', 7.0),
      (''Clay'', 7.5),
      (''Red'', 6.0),
      (''Black'', 8.0),
      (''Laterite'', 5.5),
      (''Alluvial'', 7.2),
      (''Mixed'', 6.8)]"

text \<open>Lines 46 to 49: the two lookups. The default of the first is itself read from
  the table, with \<^verbatim>\<open>SOIL_QUALITY_MAP["Medium"]\<close>, before the lookup is made.\<close>

definition soil_quality_npk :: "string \<Rightarrow> exn + (string \<times> int) list" where
  "soil_quality_npk quality =
     and_then (dict_index SOIL_QUALITY_MAP ''Medium'') (\<lambda>medium.
     Inr (dict_get SOIL_QUALITY_MAP quality medium))"

definition soil_type_ph :: "string \<Rightarrow> rat" where
  "soil_type_ph type_name = dict_get SOIL_TYPE_MAP type_name 7.0"

text \<open>The feature row given to the crop classifier; \<open>Humidity_pct\<close> is the key
  \<^verbatim>\<open>"Humidity_%"\<close> and \<open>State_Name\<close> the key \<^verbatim>\<open>"State Name"\<close>.\<close>

record crop_sample =
  N_req_kg_per_ha :: int
  P_req_kg_per_ha :: int
  K_req_kg_per_ha :: int
  Temperature_C :: json
  Humidity_pct :: json
  pH :: rat
  Rainfall_mm :: rat
  State_Name :: string

record crop_prob =
  crop :: string
  probability :: rat

text \<open>The dictionary under the key \<^verbatim>\<open>"soil_params"\<close>; the four numeric keys are those of
  the feature row, here with the prefix \<open>sp_\<close>.\<close>

record soil_params_dict =
  soil_type :: string
  soil_quality :: string
  sp_N_req_kg_per_ha :: int
  sp_P_req_kg_per_ha :: int
  sp_K_req_kg_per_ha :: int
  sp_pH :: rat

record crop_response = located +
  recommended_crops :: "crop_prob list"
  soil_params :: soil_params_dict

text \<open>\<^verbatim>\<open>crop_probs.sort(key=lambda x: x["probability"], reverse=True)\<close>: a stable sort,
  largest probability first, entries of equal probability in their order of arrival.\<close>

fun insert_desc :: "crop_prob \<Rightarrow> crop_prob list \<Rightarrow> crop_prob list" where
  "insert_desc x [] = [x]"
| "insert_desc x (y # ys) =
     (if probability x < probability y then y # insert_desc x ys else x # y # ys)"

fun sort_desc :: "crop_prob list \<Rightarrow> crop_prob list" where
  "sort_desc [] = []"
| "sort_desc (x # xs) = insert_desc x (sort_desc xs)"

text \<open>Line 56, \<^verbatim>\<open>rainfall_mm = max(weather["rain_24h"], 0.0)\<close>.\<close>

definition rainfall_mm :: "weather_snapshot \<Rightarrow> rat" where
  "rainfall_mm w = max (rain_24h w) 0.0"

text \<open>The second argument of \<^verbatim>\<open>zip(classes, proba)\<close> is iterated and each item passed to
  \<^verbatim>\<open>float\<close>: only a one-dimensional array gives numbers.\<close>

fun float_items :: "ndarray \<Rightarrow> exn + rat list" where
  "float_items (Array1 xs) = Inr xs"
| "float_items _ = Inl TypeError"

definition rank_crops :: "string list \<Rightarrow> rat list \<Rightarrow> crop_prob list" where
  "rank_crops labels proba =
     sort_desc (map (\<lambda>(cls, p). \<lparr>crop = cls, probability = p\<rparr>) (zip labels proba))"

definition recommend_crops_body ::
  "(crop_sample, string) classifier \<Rightarrow> (rat \<Rightarrow> rat \<Rightarrow> exn + http_response) \<Rightarrow> string
     \<Rightarrow> string \<Rightarrow> string \<Rightarrow> string \<Rightarrow> string \<Rightarrow> exn + crop_response" where
  "recommend_crops_body crop_model requests_get now type_name quality state_name district_name =
     and_then (soil_quality_npk quality) (\<lambda>npk.
     let ph_val = soil_type_ph type_name;
         (lat, lon) = map_location_to_coords state_name district_name;
         w = get_openmeteo_weather requests_get now lat lon;
         temp = temperature w;
         hum = humidity w;
         rain = rainfall_mm w
     in
     and_then (dict_index npk ''N'') (\<lambda>n.
     and_then (dict_index npk ''P'') (\<lambda>p.
     and_then (dict_index npk ''K'') (\<lambda>k.
     let sample = \<lparr>N_req_kg_per_ha = n, P_req_kg_per_ha = p, K_req_kg_per_ha = k,
                    Temperature_C = temp, Humidity_pct = hum, pH = ph_val,
                    Rainfall_mm = rain, State_Name = state_name\<rparr>
     in
     and_then (predict_proba crop_model sample) (\<lambda>proba2.
     and_then (index0 proba2) (\<lambda>proba.
     and_then (float_items proba) (\<lambda>ps.
     let crop_probs = rank_crops (classes crop_model) ps
     in Inr \<lparr>weather = w, state = state_name, district = district_name,
             recommended_crops = take 5 crop_probs,
             soil_params = \<lparr>soil_type = type_name, soil_quality = quality,
                             sp_N_req_kg_per_ha = n, sp_P_req_kg_per_ha = p,
                             sp_K_req_kg_per_ha = k, sp_pH = ph_val\<rparr>\<rparr>)))))))"

definition recommend_crops ::
  "(crop_sample, string) classifier \<Rightarrow> (rat \<Rightarrow> rat \<Rightarrow> exn + http_response) \<Rightarrow> string
     \<Rightarrow> string \<Rightarrow> string \<Rightarrow> string \<Rightarrow> string \<Rightarrow> crop_response outcome" where
  "recommend_crops crop_model requests_get now type_name quality state_name district_name =
     (case recommend_crops_body crop_model requests_get now type_name quality
             state_name district_name of
        Inr response \<Rightarrow> Success response
      | Inl e \<Rightarrow> Failure ''Crop recommendation failed: '' e)"

section \<open>Fixtures\<close>

text \<open>Concrete collaborators on which the functions above are evaluated: two
  classifiers that answer the same for every row, providers that time out, refuse, or
  answer with a given hourly series, and a document store that is up or down.\<close>

definition always_irrigate :: "(rat list, int) classifier" where
  "always_irrigate =
     \<lparr>predict_proba = (\<lambda>_. Inr (Array2 [[0.1, 0.9]])),
      predict = (\<lambda>_. Inr [1]),
      classes = [0, 1]\<rparr>"

definition three_crops :: "(crop_sample, string) classifier" where
  "three_crops =
     \<lparr>predict_proba = (\<lambda>_. Inr (Array2 [[0.1, 0.6, 0.3]])),
      predict = (\<lambda>_. Inr [''Rice'']),
      classes = [''Wheat'', ''Rice'', ''Maize'']\<rparr>"

definition provider_timeout :: "rat \<Rightarrow> rat \<Rightarrow> exn + http_response" where
  "provider_timeout lat lon = Inl (Raised ''Read timed out. (read timeout=5)'')"

definition provider_status :: "nat \<Rightarrow> rat \<Rightarrow> rat \<Rightarrow> exn + http_response" where
  "provider_status code lat lon = Inr \<lparr>status_code = code, json_body = Inr (JObj [])\<rparr>"

definition provider_undecodable :: "string \<Rightarrow> rat \<Rightarrow> rat \<Rightarrow> exn + http_response" where
  "provider_undecodable msg lat lon = Inr \<lparr>status_code = 200, json_body = Inl (Raised msg)\<rparr>"

definition hourly_series :: "json list \<Rightarrow> json list \<Rightarrow> json list \<Rightarrow> json list \<Rightarrow> json" where
  "hourly_series hours temps hums prec =
     JObj [(''hourly'', JObj [(''time'', JArr hours),
                              (''temperature_2m'', JArr temps),
                              (''relative_humidity_2m'', JArr hums),
                              (''precipitation'', JArr prec)])]"

definition provider_ok :: "json \<Rightarrow> rat \<Rightarrow> rat \<Rightarrow> exn + http_response" where
  "provider_ok data lat lon = Inr \<lparr>status_code = 200, json_body = Inr data\<rparr>"

definition broken_classifier :: "(rat list, int) classifier" where
  "broken_classifier =
     \<lparr>predict_proba = (\<lambda>_. Inl (Raised ''X has 5 features, but the pipeline expects 4'')),
      predict = (\<lambda>_. Inr [1]),
      classes = [0, 1]\<rparr>"

definition store_up :: "irrigation_response \<Rightarrow> exn + unit" where
  "store_up doc = Inr ()"

definition store_down :: "irrigation_response \<Rightarrow> exn + unit" where
  "store_down doc = Inl (Raised ''Server Error'')"

section \<open>Properties\<close>

subsection \<open>Sequencing\<close>

lemma and_then_Inl: "and_then (Inl e) f = Inl e"
  by (simp add: and_then_def)

lemma and_then_Inr: "and_then (Inr x) f = f x"
  by (simp add: and_then_def)

lemma and_then_eq_Inr:
  "and_then m f = Inr y \<longleftrightarrow> (\<exists>x. m = Inr x \<and> f x = Inr y)"
  by (cases m) (simp_all add: and_then_def)

lemma and_then_eq_Inl:
  "and_then m f = Inl e \<longleftrightarrow> (m = Inl e \<or> (\<exists>x. m = Inr x \<and> f x = Inl e))"
  by (cases m) (simp_all add: and_then_def)

subsection \<open>The irrigation advisor\<close>

lemma moisture_to_water_mm_cases:
  "moisture_to_water_mm m = 20 \<or> moisture_to_water_mm m = 12
     \<or> moisture_to_water_mm m = 5 \<or> moisture_to_water_mm m = 0"
  by (simp add: moisture_to_water_mm_def)

lemma rain_adjust_depth_cases:
  fixes d :: rat
  assumes "d = fst (rain_adjust (moisture_to_water_mm m) rain)"
  shows "d = 20 \<or> d = 12 \<or> d = 5 \<or> d = 0 \<or> d = 10 \<or> d = 6 \<or> d = 5 / 2"
  using moisture_to_water_mm_cases [of m] assms
  by (auto simp: rain_adjust_def)

lemma py_round2_depths:
  "py_round2 20 = 20" "py_round2 12 = 12" "py_round2 5 = 5" "py_round2 0 = 0"
  "py_round2 10 = 10" "py_round2 6 = 6" "py_round2 (5 / 2) = 5 / 2"
  by code_simp+

lemma py_round2_rain_adjust:
  "py_round2 (fst (rain_adjust (moisture_to_water_mm m) rain))
     = fst (rain_adjust (moisture_to_water_mm m) rain)"
proof -
  define d where "d = fst (rain_adjust (moisture_to_water_mm m) rain)"
  from rain_adjust_depth_cases [OF d_def]
  have "py_round2 d = d"
    by (elim disjE) (simp_all only: py_round2_depths)
  then show ?thesis by (simp only: d_def)
qed

lemma recommend_irrigation_Success:
  assumes "recommend_irrigation M feel rate rain = Success r"
  shows "\<exists>pred p. classify M (soil_feel_moisture feel) = Inr (pred, p)
           \<and> irrigate r = (pred \<noteq> 0 \<and> fst (rain_adjust (moisture_to_water_mm (soil_feel_moisture feel)) rain) > 0)
           \<and> model_probability r = p
           \<and> moisture_level r = soil_feel_moisture feel
           \<and> water_mm r = fst (rain_adjust (moisture_to_water_mm (soil_feel_moisture feel)) rain)
           \<and> duration_hours r = py_round2 (if rate > 0 then fst (rain_adjust (moisture_to_water_mm (soil_feel_moisture feel)) rain) / rate else 0)
           \<and> reason_weather r = snd (rain_adjust (moisture_to_water_mm (soil_feel_moisture feel)) rain)
           \<and> application_rate_mm_per_h r = rate
           \<and> soil_feel r = feel"
proof -
  from assms have body: "recommend_irrigation_body M feel rate rain = Inr r"
    by (simp add: recommend_irrigation_def split: sum.splits)
  show ?thesis
  proof (cases "classify M (soil_feel_moisture feel)")
    case (Inl e)
    with body show ?thesis
      by (simp add: recommend_irrigation_body_def and_then_Inl)
  next
    case (Inr pp)
    obtain pred p where pp: "pp = (pred, p)" by (cases pp)
    from body Inr pp show ?thesis
      by (auto simp: recommend_irrigation_body_def and_then_Inr py_round2_rain_adjust
            Let_def case_prod_beta)
  qed
qed

lemma recommend_irrigation_Failure:
  assumes "recommend_irrigation M feel rate rain = Failure p e"
  shows "classify M (soil_feel_moisture feel) = Inl e
           \<and> p = ''Irrigation recommendation failed: ''"
proof (cases "classify M (soil_feel_moisture feel)")
  case (Inl e')
  with assms show ?thesis
    by (simp add: recommend_irrigation_def recommend_irrigation_body_def and_then_Inl)
next
  case (Inr pp)
  with assms show ?thesis
    by (simp add: recommend_irrigation_def recommend_irrigation_body_def and_then_Inr
          Let_def case_prod_beta)
qed

lemma classify_Inr:
  assumes "classify M m = Inr (pred, p)"
  shows "\<exists>preds. predict M [m, m, m, m, m] = Inr (pred # preds)"
proof -
  from assms obtain preds where
    "predict M [m, m, m, m, m] = Inr preds" and "first_label preds = Inr pred"
    by (auto simp: classify_def Let_def and_then_eq_Inr)
  then show ?thesis by (cases preds) auto
qed

text \<open>C1: whenever \<open>recommend_irrigation\<close> succeeds, the key \<open>irrigate\<close> is the
  conjunction of the classifier's prediction (the first label \<open>predict\<close> returns on the
  row of five copies of the moisture, read as a boolean) and of the rain-adjusted depth
  being positive; the depth returned under \<open>water_mm\<close> is that rain-adjusted depth, and
  when it is 0 the key \<open>irrigate\<close> is false whatever the classifier predicted.\<close>

theorem irrigate_is_prediction_and_positive_depth:
  assumes "recommend_irrigation M feel rate rain = Success r"
  shows "(\<exists>pred preds.
            predict M [moisture_level r, moisture_level r, moisture_level r,
                       moisture_level r, moisture_level r] = Inr (pred # preds)
            \<and> irrigate r = (pred \<noteq> 0 \<and> 0 < water_mm r))
         \<and> water_mm r = fst (rain_adjust (moisture_to_water_mm (moisture_level r)) rain)
         \<and> (water_mm r = 0 \<longrightarrow> \<not> irrigate r)"
proof -
  from recommend_irrigation_Success [OF assms] obtain pred p where
    c: "classify M (soil_feel_moisture feel) = Inr (pred, p)" and
    i: "irrigate r = (pred \<noteq> 0 \<and> 0 < fst (rain_adjust (moisture_to_water_mm (soil_feel_moisture feel)) rain))" and
    m: "moisture_level r = soil_feel_moisture feel" and
    w: "water_mm r = fst (rain_adjust (moisture_to_water_mm (soil_feel_moisture feel)) rain)"
    by blast
  from classify_Inr [OF c] obtain preds where
    "predict M [soil_feel_moisture feel, soil_feel_moisture feel, soil_feel_moisture feel,
                soil_feel_moisture feel, soil_feel_moisture feel] = Inr (pred # preds)"
    by blast
  with i m w show ?thesis by auto
qed

theorem irrigate_is_prediction_and_positive_depth_witness:
  "is_Success (recommend_irrigation always_irrigate ''dry and crumbly'' 4 15)
   \<and> predict always_irrigate [0.2, 0.2, 0.2, 0.2, 0.2] = Inr [1]
   \<and> water_mm (payload (recommend_irrigation always_irrigate ''dry and crumbly'' 4 15)) = 0
   \<and> \<not> irrigate (payload (recommend_irrigation always_irrigate ''dry and crumbly'' 4 15))"
proof -
  have h: "recommend_irrigation always_irrigate ''dry and crumbly'' 4 15 =
      Success \<lparr>irrigate = False, model_probability = 0.9, moisture_level = 0.2, water_mm = 0,
        duration_hours = 0,
        reason_weather = ''Heavy rain expected (>10mm), skipping irrigation.'',
        application_rate_mm_per_h = 4, soil_feel = ''dry and crumbly''\<rparr>"
    by code_simp
  have p: "predict always_irrigate row = Inr [1]" for row
    by (simp add: always_irrigate_def)
  from irrigate_is_prediction_and_positive_depth [OF h] show ?thesis
    by (simp add: h p)
qed

text \<open>C2: the depth returned under \<open>water_mm\<close> is the four-tier step function of the
  moisture (below 0.3: 20 mm; from 0.3 and below 0.5: 12 mm; from 0.5 and below 0.7: 5 mm;
  from 0.7: 0 mm) after the rain policy: a forecast above 10 gives depth 0 and the
  heavy-rain reason, a forecast above 5 and at most 10 gives half the depth and the
  moderate-rain reason, any other forecast leaves the depth and gives the reason
  "No significant rain expected."; a forecast above 10 is never treated as moderate.\<close>

theorem water_mm_is_tiered_depth_after_rain_policy:
  assumes "recommend_irrigation M feel rate rain = Success r"
  shows "(m < 0.3 \<longrightarrow> moisture_to_water_mm m = 20)
       \<and> (0.3 \<le> m \<and> m < 0.5 \<longrightarrow> moisture_to_water_mm m = 12)
       \<and> (0.5 \<le> m \<and> m < 0.7 \<longrightarrow> moisture_to_water_mm m = 5)
       \<and> (0.7 \<le> m \<longrightarrow> moisture_to_water_mm m = 0)
       \<and> (10 < rain \<longrightarrow> water_mm r = 0
              \<and> reason_weather r = ''Heavy rain expected (>10mm), skipping irrigation.'')
       \<and> (5 < rain \<and> rain \<le> 10 \<longrightarrow> water_mm r = moisture_to_water_mm (moisture_level r) / 2
              \<and> reason_weather r = ''Moderate rain expected ('' @ format_1f rain
                   @ ''mm), reducing irrigation by 50%.'')
       \<and> (rain \<le> 5 \<longrightarrow> water_mm r = moisture_to_water_mm (moisture_level r)
              \<and> reason_weather r = ''No significant rain expected.'')"
proof -
  from recommend_irrigation_Success [OF assms] have
    m: "moisture_level r = soil_feel_moisture feel" and
    w: "water_mm r = fst (rain_adjust (moisture_to_water_mm (soil_feel_moisture feel)) rain)" and
    s: "reason_weather r = snd (rain_adjust (moisture_to_water_mm (soil_feel_moisture feel)) rain)"
    by blast+
  have tiers: "(m < 0.3 \<longrightarrow> moisture_to_water_mm m = 20)
       \<and> (0.3 \<le> m \<and> m < 0.5 \<longrightarrow> moisture_to_water_mm m = 12)
       \<and> (0.5 \<le> m \<and> m < 0.7 \<longrightarrow> moisture_to_water_mm m = 5)
       \<and> (0.7 \<le> m \<longrightarrow> moisture_to_water_mm m = 0)"
    by (simp add: moisture_to_water_mm_def)
  have policy: "(10 < rain \<longrightarrow> rain_adjust b rain =
                   (0, ''Heavy rain expected (>10mm), skipping irrigation.''))
       \<and> (5 < rain \<and> rain \<le> 10 \<longrightarrow> rain_adjust b rain =
                   (b / 2, ''Moderate rain expected ('' @ format_1f rain
                      @ ''mm), reducing irrigation by 50%.''))
       \<and> (rain \<le> 5 \<longrightarrow> rain_adjust b rain = (b, ''No significant rain expected.''))" for b
    by (simp add: rain_adjust_def)
  from tiers policy [of "moisture_to_water_mm (soil_feel_moisture feel)"] show ?thesis
    by (simp add: m w s)
qed

theorem water_mm_is_tiered_depth_after_rain_policy_witness:
  "water_mm (payload (recommend_irrigation always_irrigate ''dry and crumbly'' 4 15)) = 0
   \<and> water_mm (payload (recommend_irrigation always_irrigate ''dry and crumbly'' 4 7)) = 10
   \<and> reason_weather (payload (recommend_irrigation always_irrigate ''dry and crumbly'' 4 7))
       = ''Moderate rain expected (7.0mm), reducing irrigation by 50%.''
   \<and> water_mm (payload (recommend_irrigation always_irrigate ''dry and crumbly'' 4 2)) = 20
   \<and> moisture_to_water_mm 0.25 = 20 \<and> moisture_to_water_mm 0.45 = 12
   \<and> moisture_to_water_mm 0.65 = 5 \<and> moisture_to_water_mm 0.85 = 0"
proof -
  have h15: "recommend_irrigation always_irrigate ''dry and crumbly'' 4 15 =
      Success \<lparr>irrigate = False, model_probability = 0.9, moisture_level = 0.2, water_mm = 0,
        duration_hours = 0,
        reason_weather = ''Heavy rain expected (>10mm), skipping irrigation.'',
        application_rate_mm_per_h = 4, soil_feel = ''dry and crumbly''\<rparr>"
    by code_simp
  have h7: "recommend_irrigation always_irrigate ''dry and crumbly'' 4 7 =
      Success \<lparr>irrigate = True, model_probability = 0.9, moisture_level = 0.2, water_mm = 10,
        duration_hours = 2.5,
        reason_weather = ''Moderate rain expected (7.0mm), reducing irrigation by 50%.'',
        application_rate_mm_per_h = 4, soil_feel = ''dry and crumbly''\<rparr>"
    by code_simp
  have h2: "recommend_irrigation always_irrigate ''dry and crumbly'' 4 2 =
      Success \<lparr>irrigate = True, model_probability = 0.9, moisture_level = 0.2, water_mm = 20,
        duration_hours = 5,
        reason_weather = ''No significant rain expected.'',
        application_rate_mm_per_h = 4, soil_feel = ''dry and crumbly''\<rparr>"
    by code_simp
  have f: "format_1f 7 = ''7.0''" by code_simp
  from water_mm_is_tiered_depth_after_rain_policy [OF h15, of "0.25"]
       water_mm_is_tiered_depth_after_rain_policy [OF h7, of "0.45"]
       water_mm_is_tiered_depth_after_rain_policy [OF h2, of "0.65"]
       water_mm_is_tiered_depth_after_rain_policy [OF h2, of "0.85"]
  show ?thesis
    by (simp add: h15 h7 h2 f)
qed

lemma soil_feel_moisture_cases:
  "soil_feel_moisture feel =
     (if py_lower feel = ''dry and crumbly'' then 0.2
      else if py_lower feel = ''slightly damp'' then 0.5
      else if py_lower feel = ''wet and muddy'' then 0.8
      else 0.45)"
  by (simp add: soil_feel_moisture_def dict_get_def SOIL_FEEL_MAP_def)

text \<open>C7, as the code has it: the moisture used by \<open>recommend_irrigation\<close> is looked up
  from the lowercased description in the table of three entries "dry and crumbly" 0.2,
  "slightly damp" 0.5 and "wet and muddy" 0.8; any other description gives 0.45. The lookup
  raises nothing: when the function fails, the exception is the classifier's.\<close>

theorem moisture_from_lowercased_soil_feel:
  "(recommend_irrigation M feel rate rain = Success r \<longrightarrow>
      moisture_level r =
        (if py_lower feel = ''dry and crumbly'' then 0.2
         else if py_lower feel = ''slightly damp'' then 0.5
         else if py_lower feel = ''wet and muddy'' then 0.8
         else 0.45))
   \<and> (recommend_irrigation M feel rate rain = Failure p e \<longrightarrow>
        classify M (soil_feel_moisture feel) = Inl e)"
proof (intro conjI impI)
  assume "recommend_irrigation M feel rate rain = Success r"
  from recommend_irrigation_Success [OF this]
  have "moisture_level r = soil_feel_moisture feel" by blast
  then show "moisture_level r =
        (if py_lower feel = ''dry and crumbly'' then 0.2
         else if py_lower feel = ''slightly damp'' then 0.5
         else if py_lower feel = ''wet and muddy'' then 0.8
         else 0.45)"
    by (simp only: soil_feel_moisture_cases)
next
  assume "recommend_irrigation M feel rate rain = Failure p e"
  from recommend_irrigation_Failure [OF this]
  show "classify M (soil_feel_moisture feel) = Inl e" by blast
qed

theorem moisture_from_lowercased_soil_feel_witness:
  "moisture_level (payload (recommend_irrigation always_irrigate ''WET AND MUDDY'' 4 0)) = 0.8
   \<and> moisture_level (payload (recommend_irrigation always_irrigate ''soggy'' 4 0)) = 0.45
   \<and> classify broken_classifier (soil_feel_moisture ''soggy'')
        = Inl (Raised ''X has 5 features, but the pipeline expects 4'')"
proof -
  have h1: "recommend_irrigation always_irrigate ''WET AND MUDDY'' 4 0 =
      Success \<lparr>irrigate = False, model_probability = 0.9, moisture_level = 0.8, water_mm = 0,
        duration_hours = 0, reason_weather = ''No significant rain expected.'',
        application_rate_mm_per_h = 4, soil_feel = ''WET AND MUDDY''\<rparr>"
    by code_simp
  have h2: "recommend_irrigation always_irrigate ''soggy'' 4 0 =
      Success \<lparr>irrigate = True, model_probability = 0.9, moisture_level = 0.45, water_mm = 12,
        duration_hours = 3, reason_weather = ''No significant rain expected.'',
        application_rate_mm_per_h = 4, soil_feel = ''soggy''\<rparr>"
    by code_simp
  have h3: "recommend_irrigation broken_classifier ''soggy'' 4 0 =
      Failure ''Irrigation recommendation failed: ''
        (Raised ''X has 5 features, but the pipeline expects 4'')"
    by code_simp
  have l1: "py_lower ''WET AND MUDDY'' = ''wet and muddy''" by code_simp
  have l2: "py_lower ''soggy'' = ''soggy''" by code_simp
  from moisture_from_lowercased_soil_feel
         [of always_irrigate "''WET AND MUDDY''" 4 0 _ "[]" IndexError]
       moisture_from_lowercased_soil_feel
         [of always_irrigate "''soggy''" 4 0 _ "[]" IndexError]
       moisture_from_lowercased_soil_feel
         [of broken_classifier "''soggy''" 4 0 _ "''Irrigation recommendation failed: ''"
             "Raised ''X has 5 features, but the pipeline expects 4''"]
  show ?thesis
    by (simp add: h1 h2 h3 l1 l2)
qed

text \<open>The description "dry" alone is not a key of the table: it gets the default 0.45,
  not 0.2.\<close>

theorem dry_alone_is_not_a_key_counterexample:
  "is_Success (recommend_irrigation always_irrigate ''dry'' 4 0)
   \<and> moisture_level (payload (recommend_irrigation always_irrigate ''dry'' 4 0)) = 0.45
   \<and> moisture_level (payload (recommend_irrigation always_irrigate ''dry'' 4 0)) \<noteq> 0.2"
proof -
  have h: "recommend_irrigation always_irrigate ''dry'' 4 0 =
      Success \<lparr>irrigate = True, model_probability = 0.9, moisture_level = 0.45, water_mm = 12,
        duration_hours = 3, reason_weather = ''No significant rain expected.'',
        application_rate_mm_per_h = 4, soil_feel = ''dry''\<rparr>"
    by code_simp
  show ?thesis by (simp add: h)
qed




subsection \<open>The weather gateway\<close>

lemma get_openmeteo_weather_Inl:
  assumes "fetch_hourly g lat lon = Inl e"
  shows "get_openmeteo_weather g now lat lon =
           \<lparr>temperature = JNum 25.0, humidity = JNum 60.0, rain_24h = 0.0, timestamp = now,
            error = Some e\<rparr>"
  using assms by (simp add: get_openmeteo_weather_def)

lemma fetch_hourly_transport:
  assumes "g lat lon = Inl e"
  shows "fetch_hourly g lat lon = Inl e"
  using assms by (simp add: fetch_hourly_def and_then_Inl)

lemma fetch_hourly_status:
  assumes "g lat lon = Inr resp" and "400 \<le> status_code resp" and "status_code resp < 600"
  shows "fetch_hourly g lat lon = Inl (HTTPError (status_code resp))"
  using assms by (simp add: fetch_hourly_def raise_for_status_def and_then_Inl and_then_Inr)

lemma fetch_hourly_undecodable:
  assumes "g lat lon = Inr resp" and "status_code resp < 400" and "json_body resp = Inl e"
  shows "fetch_hourly g lat lon = Inl e"
  using assms by (simp add: fetch_hourly_def raise_for_status_def and_then_Inl and_then_Inr)

lemma fetch_hourly_no_hourly:
  assumes "g lat lon = Inr resp" and "status_code resp < 400"
    and "json_body resp = Inr (JObj kvs)" and "''hourly'' \<notin> set (map fst kvs)"
  shows "fetch_hourly g lat lon = Inl (KeyError ''hourly'')"
proof -
  from assms(4) have "map_of (rev kvs) ''hourly'' = None"
    by (simp add: map_of_eq_None_iff)
  then have "hourly_field (JObj kvs) k = Inl (KeyError ''hourly'')" for k
    by (simp add: hourly_field_def and_then_Inl)
  with assms(1-3) show ?thesis
    by (simp add: fetch_hourly_def raise_for_status_def and_then_Inl and_then_Inr)
qed

text \<open>C4: whenever the fetch raises, \<open>get_openmeteo_weather\<close> returns the fallback
  snapshot: temperature 25.0, humidity 60.0, rain 0.0, the timestamp, and the exception
  under \<open>error\<close>. A transport exception (a timeout), a 4xx or 5xx status and a body that
  does not decode or that decodes to an object without the key "hourly" are such cases.
  The function returns a snapshot on every input.\<close>

theorem fetch_exception_gives_fallback_snapshot:
  "(fetch_hourly g lat lon = Inl e \<longrightarrow>
      get_openmeteo_weather g now lat lon =
        \<lparr>temperature = JNum 25.0, humidity = JNum 60.0, rain_24h = 0.0, timestamp = now,
         error = Some e\<rparr>)
   \<and> (g lat lon = Inl e \<longrightarrow> fetch_hourly g lat lon = Inl e)
   \<and> (g lat lon = Inr resp \<and> 400 \<le> status_code resp \<and> status_code resp < 600 \<longrightarrow>
        fetch_hourly g lat lon = Inl (HTTPError (status_code resp)))
   \<and> (g lat lon = Inr resp \<and> status_code resp < 400 \<and> json_body resp = Inl e \<longrightarrow>
        fetch_hourly g lat lon = Inl e)
   \<and> (g lat lon = Inr resp \<and> status_code resp < 400 \<and> json_body resp = Inr (JObj kvs)
        \<and> ''hourly'' \<notin> set (map fst kvs) \<longrightarrow>
        fetch_hourly g lat lon = Inl (KeyError ''hourly''))"
  using get_openmeteo_weather_Inl [of g lat lon e now] fetch_hourly_transport [of g lat lon e]
    fetch_hourly_status [of g lat lon resp] fetch_hourly_undecodable [of g lat lon resp e]
    fetch_hourly_no_hourly [of g lat lon resp kvs]
  by blast

theorem fetch_exception_gives_fallback_snapshot_witness:
  "get_openmeteo_weather provider_timeout ''2026-01-01T06:00:00'' 20 78 =
     \<lparr>temperature = JNum 25.0, humidity = JNum 60.0, rain_24h = 0.0,
      timestamp = ''2026-01-01T06:00:00'',
      error = Some (Raised ''Read timed out. (read timeout=5)'')\<rparr>
   \<and> get_openmeteo_weather (provider_status 503) ''2026-01-01T06:00:00'' 20 78 =
     \<lparr>temperature = JNum 25.0, humidity = JNum 60.0, rain_24h = 0.0,
      timestamp = ''2026-01-01T06:00:00'', error = Some (HTTPError 503)\<rparr>
   \<and> get_openmeteo_weather (provider_undecodable ''Expecting value: line 1 column 1 (char 0)'')
        ''2026-01-01T06:00:00'' 20 78 =
     \<lparr>temperature = JNum 25.0, humidity = JNum 60.0, rain_24h = 0.0,
      timestamp = ''2026-01-01T06:00:00'',
      error = Some (Raised ''Expecting value: line 1 column 1 (char 0)'')\<rparr>
   \<and> get_openmeteo_weather (provider_ok (JObj [(''reason'', JStr ''bad request'')]))
        ''2026-01-01T06:00:00'' 20 78 =
     \<lparr>temperature = JNum 25.0, humidity = JNum 60.0, rain_24h = 0.0,
      timestamp = ''2026-01-01T06:00:00'', error = Some (KeyError ''hourly'')\<rparr>"
proof -
  let ?msg = "''Expecting value: line 1 column 1 (char 0)''"
  let ?r503 = "\<lparr>status_code = 503, json_body = Inr (JObj [])\<rparr>"
  let ?r200 = "\<lparr>status_code = 200, json_body = Inl (Raised ?msg)\<rparr>"
  have t: "provider_timeout 20 78 = Inl (Raised ''Read timed out. (read timeout=5)'')"
    by (simp add: provider_timeout_def)
  have s: "provider_status 503 20 78 = Inr ?r503"
    by (simp add: provider_status_def)
  let ?kvs = "[(''reason'', JStr ''bad request'')]"
  let ?rk = "\<lparr>status_code = 200, json_body = Inr (JObj ?kvs)\<rparr>"
  have u: "provider_undecodable ?msg 20 78 = Inr ?r200"
    by (simp add: provider_undecodable_def)
  have k: "provider_ok (JObj ?kvs) 20 78 = Inr ?rk"
    by (simp add: provider_ok_def)
  from fetch_exception_gives_fallback_snapshot
         [of provider_timeout 20 78 "Raised ''Read timed out. (read timeout=5)''"
             "''2026-01-01T06:00:00''" ?r503]
       fetch_exception_gives_fallback_snapshot
         [of "provider_status 503" 20 78 "HTTPError 503" "''2026-01-01T06:00:00''" ?r503]
       fetch_exception_gives_fallback_snapshot
         [of "provider_undecodable ?msg" 20 78 "Raised ?msg" "''2026-01-01T06:00:00''" ?r200]
       fetch_exception_gives_fallback_snapshot
         [of "provider_ok (JObj ?kvs)" 20 78 "KeyError ''hourly''" "''2026-01-01T06:00:00''"
             ?rk ?kvs]
       t s u k
  show ?thesis by simp
qed

subsection \<open>The gazetteer\<close>

lemma location_map_keys_distinct: "distinct (map fst location_map)"
  by code_simp

lemma soil_table_keys_distinct:
  "distinct (map fst SOIL_FEEL_MAP)"
  "distinct (map fst SOIL_QUALITY_MAP)"
  "distinct (map fst SOIL_TYPE_MAP)"
  by code_simp+

lemma map_location_to_coords_unknown:
  assumes "(py_lower (py_strip s), py_lower (py_strip d)) \<notin> set (map fst location_map)"
  shows "map_location_to_coords s d = (20.0, 78.0)"
proof -
  from assms have "map_of location_map (py_lower (py_strip s), py_lower (py_strip d)) = None"
    by (simp add: map_of_eq_None_iff)
  then show ?thesis by (simp add: map_location_to_coords_def)
qed

lemma py_isspace_lower_char: "py_isspace (lower_char c) = py_isspace c"
  by (auto simp: py_isspace_def lower_char_def Let_def)

lemma lower_char_idem: "lower_char (lower_char c) = lower_char c"
  by (auto simp: lower_char_def Let_def)

lemma py_lower_idem: "py_lower (py_lower s) = py_lower s"
  by (simp add: py_lower_def lower_char_idem)

lemma dropWhile_py_isspace_lower:
  "dropWhile py_isspace (map lower_char xs) = map lower_char (dropWhile py_isspace xs)"
  by (induction xs) (simp_all add: py_isspace_lower_char)

lemma py_strip_py_lower: "py_strip (py_lower s) = py_lower (py_strip s)"
  by (simp add: py_strip_def py_lower_def dropWhile_py_isspace_lower rev_map)

lemma py_strip_fixed:
  assumes "xs = [] \<or> (\<not> py_isspace (hd xs) \<and> \<not> py_isspace (last xs))"
  shows "py_strip xs = xs"
proof (cases "xs = []")
  case True
  then show ?thesis by (simp add: py_strip_def)
next
  case False
  with assms have h: "\<not> py_isspace (hd xs)" and l: "\<not> py_isspace (last xs)" by auto
  from h have "dropWhile py_isspace xs = xs"
    by (simp add: dropWhile_eq_self_iff)
  moreover from l False have "dropWhile py_isspace (rev xs) = rev xs"
    by (simp add: dropWhile_eq_self_iff hd_rev)
  ultimately show ?thesis by (simp add: py_strip_def)
qed

lemma py_strip_ends:
  "py_strip s = [] \<or> (\<not> py_isspace (hd (py_strip s)) \<and> \<not> py_isspace (last (py_strip s)))"
proof (cases "py_strip s = []")
  case True
  then show ?thesis by simp
next
  case False
  define t where "t = dropWhile py_isspace s"
  define u where "u = dropWhile py_isspace (rev t)"
  have su: "py_strip s = rev u" by (simp add: py_strip_def t_def u_def)
  with False have u: "u \<noteq> []" by simp
  then have hu: "\<not> py_isspace (hd u)" unfolding u_def by (rule hd_dropWhile)
  from u have t: "t \<noteq> []" unfolding u_def by auto
  then have ht: "\<not> py_isspace (hd t)" unfolding t_def by (rule hd_dropWhile)
  obtain ws where ws: "rev t = ws @ u"
    unfolding u_def by (metis takeWhile_dropWhile_id)
  from u ws have "last u = last (rev t)" by simp
  with t have "last u = hd t" by (simp add: last_rev)
  with ht hu u su show ?thesis by (simp add: hd_rev last_rev)
qed

lemma py_strip_idem: "py_strip (py_strip s) = py_strip s"
  using py_strip_ends [of s] by (rule py_strip_fixed)

lemma normalise_idem:
  "py_lower (py_strip (py_lower (py_strip s))) = py_lower (py_strip s)"
  by (simp add: py_strip_py_lower py_strip_idem py_lower_idem)

text \<open>C5: \<open>map_location_to_coords\<close> strips and lowercases both names before the
  lookup (so it gives the same on the names as on their normal forms); a pair whose
  normal form is not a key of the table gets the fallback (20.0, 78.0); the function
  returns a coordinate on every input; the keys ("karnataka", "bangalore") and
  ("karnataka", "bengaluru") both give (12.9716, 77.5946).\<close>

theorem unknown_location_gets_fallback:
  "((py_lower (py_strip s), py_lower (py_strip d)) \<notin> set (map fst location_map) \<longrightarrow>
       map_location_to_coords s d = (20.0, 78.0))
   \<and> map_location_to_coords s d
        = map_location_to_coords (py_lower (py_strip s)) (py_lower (py_strip d))
   \<and> map_location_to_coords ''karnataka'' ''bangalore'' = (12.9716, 77.5946)
   \<and> map_location_to_coords ''karnataka'' ''bengaluru'' = (12.9716, 77.5946)"
proof -
  have a: "map_location_to_coords ''karnataka'' ''bangalore'' = (12.9716, 77.5946)"
    by code_simp
  have b: "map_location_to_coords ''karnataka'' ''bengaluru'' = (12.9716, 77.5946)"
    by code_simp
  have n: "map_location_to_coords s d
        = map_location_to_coords (py_lower (py_strip s)) (py_lower (py_strip d))"
    by (simp add: map_location_to_coords_def normalise_idem)
  from a b n map_location_to_coords_unknown [of s d] show ?thesis by blast
qed

theorem unknown_location_gets_fallback_witness:
  "(py_lower (py_strip '' Atlantis ''), py_lower (py_strip ''R'lyeh''))
       = (''atlantis'', ''r'lyeh'')
   \<and> (''atlantis'', ''r'lyeh'') \<notin> set (map fst location_map)
   \<and> map_location_to_coords '' Atlantis '' ''R'lyeh'' = (20.0, 78.0)
   \<and> map_location_to_coords ''  Karnataka'' ''BENGALURU '' = (12.9716, 77.5946)"
proof -
  have k: "(py_lower (py_strip '' Atlantis ''), py_lower (py_strip ''R'lyeh''))
       = (''atlantis'', ''r'lyeh'')"
    by code_simp
  have u: "(''atlantis'', ''r'lyeh'') \<notin> set (map fst location_map)"
    by code_simp
  have n1: "py_lower (py_strip ''  Karnataka'') = ''karnataka''" by code_simp
  have n2: "py_lower (py_strip ''BENGALURU '') = ''bengaluru''" by code_simp
  from unknown_location_gets_fallback [of "'' Atlantis ''" "''R'lyeh''"]
       unknown_location_gets_fallback [of "''  Karnataka''" "''BENGALURU ''"]
       k u n1 n2
  show ?thesis by simp
qed

subsection \<open>The crop recommender\<close>

lemma mset_insert_desc: "mset (insert_desc x ys) = add_mset x (mset ys)"
  by (induction ys) auto

lemma mset_sort_desc: "mset (sort_desc xs) = mset xs"
  by (induction xs) (auto simp: mset_insert_desc)

lemma set_insert_desc: "set (insert_desc x ys) = insert x (set ys)"
  by (induction ys) auto

lemma sorted_insert_desc:
  assumes "sorted_wrt (\<lambda>a b. probability b \<le> probability a) ys"
  shows "sorted_wrt (\<lambda>a b. probability b \<le> probability a) (insert_desc x ys)"
  using assms
proof (induction ys)
  case Nil
  then show ?case by simp
next
  case (Cons y ys)
  show ?case
  proof (cases "probability x < probability y")
    case True
    with Cons show ?thesis by (auto simp: set_insert_desc)
  next
    case False
    with Cons.prems show ?thesis by fastforce
  qed
qed

lemma sorted_sort_desc: "sorted_wrt (\<lambda>a b. probability b \<le> probability a) (sort_desc xs)"
  by (induction xs) (auto intro: sorted_insert_desc)

lemma filter_insert_desc:
  "filter (\<lambda>y. probability y = k) (insert_desc x ys) =
     (if probability x = k then x # filter (\<lambda>y. probability y = k) ys
      else filter (\<lambda>y. probability y = k) ys)"
  by (induction ys) auto

lemma sort_desc_stable:
  "filter (\<lambda>y. probability y = k) (sort_desc xs) = filter (\<lambda>y. probability y = k) xs"
  by (induction xs) (auto simp: filter_insert_desc)

lemma soil_quality_npk_cases:
  "soil_quality_npk q = Inr
     (if q = ''Poor'' then [(''N'', 20), (''P'', 10), (''K'', 10)]
      else if q = ''Rich'' then [(''N'', 90), (''P'', 40), (''K'', 40)]
      else [(''N'', 50), (''P'', 25), (''K'', 25)])"
  by (simp add: soil_quality_npk_def dict_index_def dict_get_def SOIL_QUALITY_MAP_def
        and_then_Inr)

lemma soil_quality_npk_triple:
  "\<exists>n p k. soil_quality_npk q = Inr [(''N'', n), (''P'', p), (''K'', k)]
     \<and> (n, p, k) = (if q = ''Poor'' then (20, 10, 10)
                    else if q = ''Rich'' then (90, 40, 40) else (50, 25, 25))"
  by (simp add: soil_quality_npk_cases)

lemma dict_index_npk:
  "dict_index [(''N'', n), (''P'', p), (''K'', k)] ''N'' = Inr n"
  "dict_index [(''N'', n), (''P'', p), (''K'', k)] ''P'' = Inr p"
  "dict_index [(''N'', n), (''P'', p), (''K'', k)] ''K'' = Inr k"
  by (simp_all add: dict_index_def)

lemma index0_float_items:
  assumes "index0 a = Inr b" and "float_items b = Inr ps"
  shows "\<exists>rows. a = Array2 (ps # rows)"
proof (cases a)
  case (Scalar x)
  with assms show ?thesis by simp
next
  case (Array1 xs)
  with assms show ?thesis by (cases xs) auto
next
  case (Array2 rows)
  with assms show ?thesis by (cases rows) auto
qed

lemma recommend_crops_Success:
  assumes "recommend_crops cm g now ty q st di = Success r"
  shows "\<exists>n p k x row rows.
           (n, p, k) = (if q = ''Poor'' then (20, 10, 10)
                        else if q = ''Rich'' then (90, 40, 40) else (50, 25, 25))
         \<and> x = \<lparr>N_req_kg_per_ha = n, P_req_kg_per_ha = p, K_req_kg_per_ha = k,
                Temperature_C = temperature (weather r), Humidity_pct = humidity (weather r),
                pH = soil_type_ph ty, Rainfall_mm = rainfall_mm (weather r), State_Name = st\<rparr>
         \<and> predict_proba cm x = Inr (Array2 (row # rows))
         \<and> recommended_crops r = take 5 (rank_crops (classes cm) row)
         \<and> soil_params r = \<lparr>soil_type = ty, soil_quality = q, sp_N_req_kg_per_ha = n,
                sp_P_req_kg_per_ha = p, sp_K_req_kg_per_ha = k, sp_pH = soil_type_ph ty\<rparr>
         \<and> weather r = get_openmeteo_weather g now (fst (map_location_to_coords st di))
                          (snd (map_location_to_coords st di))
         \<and> state r = st \<and> district r = di"
proof -
  from assms have body: "recommend_crops_body cm g now ty q st di = Inr r"
    by (simp add: recommend_crops_def split: sum.splits)
  from soil_quality_npk_triple [of q] obtain n p k where
    npk: "soil_quality_npk q = Inr [(''N'', n), (''P'', p), (''K'', k)]" and
    v: "(n, p, k) = (if q = ''Poor'' then (20, 10, 10)
                     else if q = ''Rich'' then (90, 40, 40) else (50, 25, 25))"
    by blast
  define w where "w = get_openmeteo_weather g now (fst (map_location_to_coords st di))
                          (snd (map_location_to_coords st di))"
  define x where "x = \<lparr>N_req_kg_per_ha = n, P_req_kg_per_ha = p, K_req_kg_per_ha = k,
                Temperature_C = temperature w, Humidity_pct = humidity w,
                pH = soil_type_ph ty, Rainfall_mm = rainfall_mm w, State_Name = st\<rparr>"
  from body npk have
    "and_then (predict_proba cm x) (\<lambda>proba2.
     and_then (index0 proba2) (\<lambda>proba.
     and_then (float_items proba) (\<lambda>ps.
       Inr \<lparr>weather = w, state = st, district = di,
            recommended_crops = take 5 (rank_crops (classes cm) ps),
            soil_params = \<lparr>soil_type = ty, soil_quality = q, sp_N_req_kg_per_ha = n,
              sp_P_req_kg_per_ha = p, sp_K_req_kg_per_ha = k, sp_pH = soil_type_ph ty\<rparr>\<rparr>)))
     = Inr r"
    by (simp add: recommend_crops_body_def and_then_Inr dict_index_npk Let_def case_prod_beta
          w_def x_def)
  then obtain a b ps where
    a: "predict_proba cm x = Inr a" and b: "index0 a = Inr b" and ps: "float_items b = Inr ps"
    and r: "r = \<lparr>weather = w, state = st, district = di,
            recommended_crops = take 5 (rank_crops (classes cm) ps),
            soil_params = \<lparr>soil_type = ty, soil_quality = q, sp_N_req_kg_per_ha = n,
              sp_P_req_kg_per_ha = p, sp_K_req_kg_per_ha = k, sp_pH = soil_type_ph ty\<rparr>\<rparr>"
    by (auto simp: and_then_eq_Inr)
  from index0_float_items [OF b ps] obtain rows where "a = Array2 (ps # rows)" by blast
  with a r v show ?thesis
    unfolding x_def w_def by auto
qed

lemma recommend_crops_total:
  assumes "\<forall>x. \<exists>row rows. predict_proba cm x = Inr (Array2 (row # rows))"
  shows "is_Success (recommend_crops cm g now ty q st di)"
proof -
  from soil_quality_npk_triple [of q] obtain n p k where
    npk: "soil_quality_npk q = Inr [(''N'', n), (''P'', p), (''K'', k)]"
    by blast
  define w where "w = get_openmeteo_weather g now (fst (map_location_to_coords st di))
                          (snd (map_location_to_coords st di))"
  define x where "x = \<lparr>N_req_kg_per_ha = n, P_req_kg_per_ha = p, K_req_kg_per_ha = k,
                Temperature_C = temperature w, Humidity_pct = humidity w,
                pH = soil_type_ph ty, Rainfall_mm = rainfall_mm w, State_Name = st\<rparr>"
  from assms obtain row rows where "predict_proba cm x = Inr (Array2 (row # rows))"
    by blast
  with npk show ?thesis
    by (simp add: recommend_crops_def recommend_crops_body_def and_then_Inr dict_index_npk
          Let_def case_prod_beta w_def x_def)
qed

lemma soil_type_ph_default:
  assumes "ty \<notin> {''Sandy'', ''Loam'', ''Clay'', ''Red'', ''Black'', ''Laterite'', ''Alluvial'',
                  ''Mixed''}"
  shows "soil_type_ph ty = 7.0"
  using assms by (simp add: soil_type_ph_def dict_get_def SOIL_TYPE_MAP_def)

text \<open>C6: when \<open>recommend_crops\<close> succeeds, the classifier returned a row of
  probabilities; each is paired with the class label at its position, the pairs are sorted
  by descending probability (pairs of equal probability keeping their order), and
  \<open>recommended_crops\<close> is the first five of the sorted pairs. The probabilities
  0.1, 0.6, 0.3 for Wheat, Rice, Maize give Rice (0.6), Maize (0.3), Wheat (0.1).\<close>

theorem recommended_crops_are_first_five_by_probability:
  assumes "recommend_crops cm g now ty q st di = Success r"
  shows "(\<exists>x row rows. predict_proba cm x = Inr (Array2 (row # rows))
            \<and> recommended_crops r = take 5 (rank_crops (classes cm) row)
            \<and> mset (rank_crops (classes cm) row)
                 = mset (map (\<lambda>(cls, p). \<lparr>crop = cls, probability = p\<rparr>) (zip (classes cm) row))
            \<and> sorted_wrt (\<lambda>a b. probability b \<le> probability a) (rank_crops (classes cm) row)
            \<and> filter (\<lambda>y. probability y = k) (rank_crops (classes cm) row)
                 = filter (\<lambda>y. probability y = k)
                     (map (\<lambda>(cls, p). \<lparr>crop = cls, probability = p\<rparr>) (zip (classes cm) row)))
         \<and> rank_crops [''Wheat'', ''Rice'', ''Maize''] [0.1, 0.6, 0.3]
             = [\<lparr>crop = ''Rice'', probability = 0.6\<rparr>, \<lparr>crop = ''Maize'', probability = 0.3\<rparr>,
                \<lparr>crop = ''Wheat'', probability = 0.1\<rparr>]"
proof -
  from recommend_crops_Success [OF assms] obtain x row rows where
    "predict_proba cm x = Inr (Array2 (row # rows))" and
    "recommended_crops r = take 5 (rank_crops (classes cm) row)"
    by blast
  moreover have "rank_crops [''Wheat'', ''Rice'', ''Maize''] [0.1, 0.6, 0.3]
             = [\<lparr>crop = ''Rice'', probability = 0.6\<rparr>, \<lparr>crop = ''Maize'', probability = 0.3\<rparr>,
                \<lparr>crop = ''Wheat'', probability = 0.1\<rparr>]"
    by (simp add: rank_crops_def)
  ultimately show ?thesis
    by (auto simp: rank_crops_def mset_sort_desc sorted_sort_desc sort_desc_stable)
qed

theorem recommended_crops_are_first_five_by_probability_witness:
  "is_Success (recommend_crops three_crops provider_timeout ''2026-01-01T06:00:00''
      ''Loam'' ''Medium'' ''Chhattisgarh'' ''Durg'')
   \<and> recommended_crops (payload (recommend_crops three_crops provider_timeout
        ''2026-01-01T06:00:00'' ''Loam'' ''Medium'' ''Chhattisgarh'' ''Durg''))
      = [\<lparr>crop = ''Rice'', probability = 0.6\<rparr>, \<lparr>crop = ''Maize'', probability = 0.3\<rparr>,
         \<lparr>crop = ''Wheat'', probability = 0.1\<rparr>]"
proof -
  have h: "recommend_crops three_crops provider_timeout ''2026-01-01T06:00:00''
      ''Loam'' ''Medium'' ''Chhattisgarh'' ''Durg'' =
    Success \<lparr>weather = \<lparr>temperature = JNum 25.0, humidity = JNum 60.0, rain_24h = 0.0,
                timestamp = ''2026-01-01T06:00:00'',
                error = Some (Raised ''Read timed out. (read timeout=5)'')\<rparr>,
             state = ''Chhattisgarh'', district = ''Durg'',
             recommended_crops =
               [\<lparr>crop = ''Rice'', probability = 0.6\<rparr>, \<lparr>crop = ''Maize'', probability = 0.3\<rparr>,
                \<lparr>crop = ''Wheat'', probability = 0.1\<rparr>],
             soil_params = \<lparr>soil_type = ''Loam'', soil_quality = ''Medium'',
               sp_N_req_kg_per_ha = 50, sp_P_req_kg_per_ha = 25, sp_K_req_kg_per_ha = 25,
               sp_pH = 7.0\<rparr>\<rparr>"
    by code_simp
  from recommended_crops_are_first_five_by_probability [OF h] show ?thesis
    by (simp add: h)
qed

text \<open>C10: the two soil lookups of \<open>recommend_crops\<close> compare the strings as they are.
  A \<open>soil_quality\<close> other than exactly "Poor", "Medium" or "Rich" gets the Medium triple
  N 50, P 25, K 25, and a \<open>soil_type\<close> other than exactly one of the eight keys gets pH 7.0;
  these are the values in the row given to the classifier and under \<open>soil_params\<close>.
  Neither lookup raises: with a classifier that always returns a row of probabilities the
  function succeeds whatever the two strings are.\<close>

theorem soil_lookups_are_case_sensitive_with_defaults:
  "(recommend_crops cm g now ty q st di = Success r \<longrightarrow>
      (\<exists>x row rows. predict_proba cm x = Inr (Array2 (row # rows))
         \<and> N_req_kg_per_ha x = sp_N_req_kg_per_ha (soil_params r)
         \<and> P_req_kg_per_ha x = sp_P_req_kg_per_ha (soil_params r)
         \<and> K_req_kg_per_ha x = sp_K_req_kg_per_ha (soil_params r)
         \<and> pH x = sp_pH (soil_params r))
      \<and> (q \<notin> {''Poor'', ''Medium'', ''Rich''} \<longrightarrow>
            sp_N_req_kg_per_ha (soil_params r) = 50
          \<and> sp_P_req_kg_per_ha (soil_params r) = 25
          \<and> sp_K_req_kg_per_ha (soil_params r) = 25)
      \<and> (ty \<notin> {''Sandy'', ''Loam'', ''Clay'', ''Red'', ''Black'', ''Laterite'', ''Alluvial'',
                  ''Mixed''} \<longrightarrow>
            sp_pH (soil_params r) = 7.0))
   \<and> ((\<forall>x. \<exists>row rows. predict_proba cm x = Inr (Array2 (row # rows))) \<longrightarrow>
         is_Success (recommend_crops cm g now ty q st di))"
proof (intro conjI impI)
  assume s: "recommend_crops cm g now ty q st di = Success r"
  from recommend_crops_Success [OF s] obtain n p k x row rows where
    v: "(n, p, k) = (if q = ''Poor'' then (20, 10, 10)
                     else if q = ''Rich'' then (90, 40, 40) else (50, 25, 25))" and
    x: "x = \<lparr>N_req_kg_per_ha = n, P_req_kg_per_ha = p, K_req_kg_per_ha = k,
                Temperature_C = temperature (weather r), Humidity_pct = humidity (weather r),
                pH = soil_type_ph ty, Rainfall_mm = rainfall_mm (weather r), State_Name = st\<rparr>" and
    pp: "predict_proba cm x = Inr (Array2 (row # rows))" and
    sp: "soil_params r = \<lparr>soil_type = ty, soil_quality = q, sp_N_req_kg_per_ha = n,
                sp_P_req_kg_per_ha = p, sp_K_req_kg_per_ha = k, sp_pH = soil_type_ph ty\<rparr>"
    by blast
  from pp x sp
  show "\<exists>x row rows. predict_proba cm x = Inr (Array2 (row # rows))
         \<and> N_req_kg_per_ha x = sp_N_req_kg_per_ha (soil_params r)
         \<and> P_req_kg_per_ha x = sp_P_req_kg_per_ha (soil_params r)
         \<and> K_req_kg_per_ha x = sp_K_req_kg_per_ha (soil_params r)
         \<and> pH x = sp_pH (soil_params r)"
    by (intro exI [of _ x] exI [of _ row] exI [of _ rows]) simp
  {
    assume "q \<notin> {''Poor'', ''Medium'', ''Rich''}"
    with v have "n = 50 \<and> p = 25 \<and> k = 25" by simp
    with sp show "sp_N_req_kg_per_ha (soil_params r) = 50"
      and "sp_P_req_kg_per_ha (soil_params r) = 25"
      and "sp_K_req_kg_per_ha (soil_params r) = 25"
      by simp_all
  }
  {
    assume "ty \<notin> {''Sandy'', ''Loam'', ''Clay'', ''Red'', ''Black'', ''Laterite'', ''Alluvial'',
                  ''Mixed''}"
    from soil_type_ph_default [OF this] sp show "sp_pH (soil_params r) = 7.0" by simp
  }
next
  assume "\<forall>x. \<exists>row rows. predict_proba cm x = Inr (Array2 (row # rows))"
  then show "is_Success (recommend_crops cm g now ty q st di)"
    by (rule recommend_crops_total)
qed

theorem soil_lookups_are_case_sensitive_with_defaults_witness:
  "is_Success (recommend_crops three_crops provider_timeout ''2026-01-01T06:00:00''
      ''clay'' ''rich'' ''Chhattisgarh'' ''Durg'')
   \<and> soil_params (payload (recommend_crops three_crops provider_timeout
        ''2026-01-01T06:00:00'' ''clay'' ''rich'' ''Chhattisgarh'' ''Durg''))
      = \<lparr>soil_type = ''clay'', soil_quality = ''rich'',
         sp_N_req_kg_per_ha = 50, sp_P_req_kg_per_ha = 25, sp_K_req_kg_per_ha = 25,
         sp_pH = 7.0\<rparr>"
proof -
  have h: "recommend_crops three_crops provider_timeout ''2026-01-01T06:00:00''
      ''clay'' ''rich'' ''Chhattisgarh'' ''Durg'' =
    Success \<lparr>weather = \<lparr>temperature = JNum 25.0, humidity = JNum 60.0, rain_24h = 0.0,
                timestamp = ''2026-01-01T06:00:00'',
                error = Some (Raised ''Read timed out. (read timeout=5)'')\<rparr>,
             state = ''Chhattisgarh'', district = ''Durg'',
             recommended_crops =
               [\<lparr>crop = ''Rice'', probability = 0.6\<rparr>, \<lparr>crop = ''Maize'', probability = 0.3\<rparr>,
                \<lparr>crop = ''Wheat'', probability = 0.1\<rparr>],
             soil_params = \<lparr>soil_type = ''clay'', soil_quality = ''rich'',
               sp_N_req_kg_per_ha = 50, sp_P_req_kg_per_ha = 25, sp_K_req_kg_per_ha = 25,
               sp_pH = 7.0\<rparr>\<rparr>"
    by code_simp
  have a: "\<forall>x. \<exists>row rows. predict_proba three_crops x = Inr (Array2 (row # rows))"
    by (simp add: three_crops_def)
  have nq: "''rich'' \<notin> {''Poor'', ''Medium'', ''Rich''}" by simp
  have nt: "''clay'' \<notin> {''Sandy'', ''Loam'', ''Clay'', ''Red'', ''Black'', ''Laterite'',
      ''Alluvial'', ''Mixed''}" by simp
  from soil_lookups_are_case_sensitive_with_defaults
         [of three_crops provider_timeout "''2026-01-01T06:00:00''" "''clay''" "''rich''"
             "''Chhattisgarh''" "''Durg''"] h a nq nt
  show ?thesis by simp
qed

subsection \<open>Weather-based irrigation\<close>

lemma appwrite_service_unbound:
  "load_global irrigation_service_globals ''appwrite_service'' = Inl (NameError ''appwrite_service'')"
  by (simp add: load_global_def irrigation_service_globals_def)

lemma log_irrigation_absorbs:
  "log_irrigation create_document user_id farm_id log_data
     = log_data\<lparr>logged_ids := Some (user_id, farm_id)\<rparr>"
  by (simp add: log_irrigation_def Let_def split: sum.splits)

lemma inner_success_becomes_failure:
  assumes "is_Success (recommend_irrigation M feel rate
             (irrigation_rain_24h (get_openmeteo_weather g now
                (fst (map_location_to_coords st di)) (snd (map_location_to_coords st di)))))"
  shows "recommend_irrigation_with_weather M g now store feel rate st di
           = Failure ''Weather-based irrigation recommendation failed: ''
               (NameError ''appwrite_service'')"
  using assms
  by (simp add: recommend_irrigation_with_weather_def recommend_irrigation_with_weather_body_def
        Let_def case_prod_beta appwrite_service_unbound and_then_Inl)

lemma inner_failure_is_returned:
  assumes "\<not> is_Success (recommend_irrigation M feel rate
             (irrigation_rain_24h (get_openmeteo_weather g now
                (fst (map_location_to_coords st di)) (snd (map_location_to_coords st di)))))"
  shows "\<not> success_flag (recommend_irrigation_with_weather M g now store feel rate st di)"
  using assms
  by (simp add: recommend_irrigation_with_weather_def recommend_irrigation_with_weather_body_def
        Let_def case_prod_beta success_flag_def)

text \<open>C3 fails on the code: \<open>recommend_irrigation_with_weather\<close> reads the name
  \<open>appwrite_service\<close>, which \<open>irrigation_service.py\<close> never binds, whenever the inner
  recommendation succeeded. With soil feel "dry and crumbly", rate 4, Karnataka/Bangalore
  and a provider that times out, the inner call succeeds on the fallback weather and the
  outer call returns the failure object for a NameError, whether the document store is
  up or down.\<close>

theorem successful_recommendation_lost_at_logging:
  "is_Success (recommend_irrigation always_irrigate ''dry and crumbly'' 4
      (irrigation_rain_24h (get_openmeteo_weather provider_timeout ''2026-01-01T06:00:00''
         12.9716 77.5946)))
   \<and> map_location_to_coords ''karnataka'' ''bangalore'' = (12.9716, 77.5946)
   \<and> recommend_irrigation_with_weather always_irrigate provider_timeout ''2026-01-01T06:00:00''
        store_down ''dry and crumbly'' 4 ''karnataka'' ''bangalore''
      = Failure ''Weather-based irrigation recommendation failed: ''
          (NameError ''appwrite_service'')
   \<and> recommend_irrigation_with_weather always_irrigate provider_timeout ''2026-01-01T06:00:00''
        store_up ''dry and crumbly'' 4 ''karnataka'' ''bangalore''
      = Failure ''Weather-based irrigation recommendation failed: ''
          (NameError ''appwrite_service'')
   \<and> \<not> success_flag (recommend_irrigation_with_weather always_irrigate provider_timeout
        ''2026-01-01T06:00:00'' store_down ''dry and crumbly'' 4 ''karnataka'' ''bangalore'')"
proof -
  have c: "map_location_to_coords ''karnataka'' ''bangalore'' = (12.9716, 77.5946)"
    by code_simp
  have i: "is_Success (recommend_irrigation always_irrigate ''dry and crumbly'' 4
      (irrigation_rain_24h (get_openmeteo_weather provider_timeout ''2026-01-01T06:00:00''
         12.9716 77.5946)))"
    by code_simp
  from i c have i': "is_Success (recommend_irrigation always_irrigate ''dry and crumbly'' 4
      (irrigation_rain_24h (get_openmeteo_weather provider_timeout ''2026-01-01T06:00:00''
         (fst (map_location_to_coords ''karnataka'' ''bangalore''))
         (snd (map_location_to_coords ''karnataka'' ''bangalore'')))))"
    by (simp only: c fst_conv snd_conv)
  from inner_success_becomes_failure [OF i', of store_down]
       inner_success_becomes_failure [OF i', of store_up] i c
  show ?thesis by (simp add: success_flag_def)
qed

text \<open>C8 fails on the code: line 112 of \<open>irrigation_service.py\<close> hands
  \<open>weather["rain_24h"]\<close> to \<open>recommend_irrigation\<close> as it is, while line 56 of
  \<open>crop_service.py\<close> clamps the same value with \<open>max(..., 0.0)\<close>. For a provider
  answer whose hourly precipitation is the single reading -1, the forecast handed to the
  irrigation policy is -1 and the rainfall given to the crop classifier is 0.\<close>

theorem negative_rain_reaches_irrigation_policy:
  "rain_24h (get_openmeteo_weather
       (provider_ok (hourly_series [JStr ''2026-01-01T00:00''] [JNum 21] [JNum 55] [JNum (- 1)]))
       ''2026-01-01T06:00:00'' 20 78) = - 1
   \<and> irrigation_rain_24h (get_openmeteo_weather
       (provider_ok (hourly_series [JStr ''2026-01-01T00:00''] [JNum 21] [JNum 55] [JNum (- 1)]))
       ''2026-01-01T06:00:00'' 20 78) = - 1
   \<and> rainfall_mm (get_openmeteo_weather
       (provider_ok (hourly_series [JStr ''2026-01-01T00:00''] [JNum 21] [JNum 55] [JNum (- 1)]))
       ''2026-01-01T06:00:00'' 20 78) = 0"
proof -
  have w: "get_openmeteo_weather
       (provider_ok (hourly_series [JStr ''2026-01-01T00:00''] [JNum 21] [JNum 55] [JNum (- 1)]))
       ''2026-01-01T06:00:00'' 20 78
     = \<lparr>temperature = JNum 21, humidity = JNum 55, rain_24h = - 1,
        timestamp = ''2026-01-01T06:00:00'', error = None\<rparr>"
    by code_simp
  show ?thesis
    by (simp add: w irrigation_rain_24h_def rainfall_mm_def)
qed

end
